theory Spec2Isabelle
  imports Complex_Main "HOL-Library.Char_ord" "HOL-Library.List_Lexorder"
begin

section \<open>The traffic table\<close>

text \<open>
  \<^verbatim>\<open>pdf.py\<close> is one script: it loads \<^verbatim>\<open>traffic_simulation.csv\<close> into a table,
  averages the column \<^verbatim>\<open>Probability\<close> per \<^verbatim>\<open>State\<close> over three windows of \<^verbatim>\<open>Time\<close>,
  draws one line per state, fills an HTML template and converts it to PDF.

  The columns \<^verbatim>\<open>Time\<close> and \<^verbatim>\<open>Probability\<close> are float columns of the table library; floats
  are modelled by the reals, so sums and quotients are exact. A field of the column
  \<^verbatim>\<open>Probability\<close> is a number, missing (the library's NaN), or text that does not parse as a
  number.
\<close>

datatype cell = is_Num: Num (the_Num: real) | is_NaN: NaN | is_Str: Str string

record row =
  Time :: real
  State :: string
  Probability :: cell

text \<open>
  The loader gives the column \<^verbatim>\<open>Probability\<close> the type \<^verbatim>\<open>float64\<close> when every field is a
  number or missing, and \<^verbatim>\<open>object\<close> as soon as one field is text; every selection of
  rows keeps the column type of the table it is taken from.
\<close>

datatype dtype = float64 | object

record dataframe =
  Probability_dtype :: dtype
  rows :: "row list"

datatype py_exception =
    TypeError string
  | Exception string
  | BaseException string

text \<open>
  \<^const>\<open>TypeError\<close> is what the table library raises from \<^verbatim>\<open>mean\<close>; \<^const>\<open>Exception\<close> stands
  for any other instance of Python's class \<^verbatim>\<open>Exception\<close> and \<^const>\<open>BaseException\<close> for one
  that is not (\<^verbatim>\<open>KeyboardInterrupt\<close>, \<^verbatim>\<open>SystemExit\<close>). The string is \<^verbatim>\<open>str(e)\<close>.
\<close>

definition read_csv :: "row list \<Rightarrow> dataframe" where
  "read_csv csv =
     \<lparr>Probability_dtype = (if list_ex (\<lambda>r. is_Str (Probability r)) csv then object else float64),
      rows = csv\<rparr>"

section \<open>Period selection (lines 11 to 13)\<close>

text \<open>\<^verbatim>\<open>df[mask]\<close>: the rows where the mask holds, in the order of the table.\<close>

definition select :: "(row \<Rightarrow> bool) \<Rightarrow> dataframe \<Rightarrow> dataframe" where
  "select msk df = df\<lparr>rows := filter msk (rows df)\<rparr>"

definition early_period :: "dataframe \<Rightarrow> dataframe" where
  "early_period df = select (\<lambda>r. Time r \<ge> 8 \<and> Time r < 16) df"

definition rush_hour_period :: "dataframe \<Rightarrow> dataframe" where
  "rush_hour_period df = select (\<lambda>r. Time r \<ge> 16 \<and> Time r < 18) df"

definition late_period :: "dataframe \<Rightarrow> dataframe" where
  "late_period df = select (\<lambda>r. Time r \<ge> 18 \<and> Time r \<le> 20) df"

section \<open>Mean per state (lines 15 to 17)\<close>

text \<open>
  \<^verbatim>\<open>groupby('State')['Probability']\<close>: one group per state that occurs, the groups in
  sorted order of their keys, each holding the fields of its rows in table order.
\<close>

definition groupby_State_Probability :: "dataframe \<Rightarrow> (string \<times> cell list) list" where
  "groupby_State_Probability df =
     map (\<lambda>s. (s, map Probability (filter (\<lambda>r. State r = s) (rows df))))
       (sort (remdups (map State (rows df))))"

fun nums :: "cell list \<Rightarrow> real list" where
  "nums [] = []"
| "nums (Num x # cs) = x # nums cs"
| "nums (c # cs) = nums cs"

text \<open>
  \<^verbatim>\<open>mean()\<close> of one group. On a float column missing fields are skipped and a group with
  no number has the mean NaN, here \<^const>\<open>None\<close>. On a column of type \<^verbatim>\<open>object\<close> every
  field that is not missing is text, numbers included, and the library refuses to average
  text.
\<close>

definition mean :: "dtype \<Rightarrow> cell list \<Rightarrow> py_exception + real option" where
  "mean dt cs =
     (case dt of
        float64 \<Rightarrow>
          Inr (let xs = nums cs in if xs = [] then None else Some (sum_list xs / real (length xs)))
      | object \<Rightarrow>
          if list_all is_NaN cs then Inr None
          else Inl (TypeError ''agg function failed [how->mean,dtype->object]''))"

fun groupby_mean :: "dtype \<Rightarrow> (string \<times> cell list) list \<Rightarrow> py_exception + (string \<times> real option) list" where
  "groupby_mean dt [] = Inr []"
| "groupby_mean dt ((s, cs) # gs) =
     (case mean dt cs of
        Inl e \<Rightarrow> Inl e
      | Inr m \<Rightarrow>
          (case groupby_mean dt gs of
             Inl e \<Rightarrow> Inl e
           | Inr ms \<Rightarrow> Inr ((s, m) # ms)))"

type_synonym series = "(string \<times> real) list"

definition fillna :: "real \<Rightarrow> (string \<times> real option) list \<Rightarrow> series" where
  "fillna d ms = map (\<lambda>(s, m). (s, case m of None \<Rightarrow> d | Some v \<Rightarrow> v)) ms"

text \<open>\<^verbatim>\<open>p.groupby('State')['Probability'].mean().fillna(0)\<close> for a selection \<open>p\<close>.\<close>

definition avg_prob :: "dataframe \<Rightarrow> py_exception + series" where
  "avg_prob p =
     (case groupby_mean (Probability_dtype p) (groupby_State_Probability p) of
        Inl e \<Rightarrow> Inl e
      | Inr ms \<Rightarrow> Inr (fillna 0 ms))"

definition avg_prob_early :: "dataframe \<Rightarrow> py_exception + series" where
  "avg_prob_early df = avg_prob (early_period df)"

definition avg_prob_rush_hour :: "dataframe \<Rightarrow> py_exception + series" where
  "avg_prob_rush_hour df = avg_prob (rush_hour_period df)"

definition avg_prob_late :: "dataframe \<Rightarrow> py_exception + series" where
  "avg_prob_late df = avg_prob (late_period df)"

text \<open>
  Lines 15 to 17 in order: the first statement that raises ends the run, so the later ones
  are not evaluated.
\<close>

definition aggregate :: "dataframe \<Rightarrow> py_exception + (series \<times> series \<times> series)" where
  "aggregate df =
     (case avg_prob_early df of
        Inl e \<Rightarrow> Inl e
      | Inr a \<Rightarrow>
          (case avg_prob_rush_hour df of
             Inl e \<Rightarrow> Inl e
           | Inr b \<Rightarrow>
               (case avg_prob_late df of
                  Inl e \<Rightarrow> Inl e
                | Inr c \<Rightarrow> Inr (a, b, c))))"

text \<open>
  The arithmetic mean of a list of numbers, with no value for the empty list: the quantity
  the specification compares the aggregate with.
\<close>

definition arithmetic_mean :: "real list \<Rightarrow> real option" where
  "arithmetic_mean ps = (if ps = [] then None else Some (sum_list ps / real (length ps)))"

section \<open>Reading the aggregate (lines 88 to 96)\<close>

text \<open>
  A value handed to the template is a float of a series or the integer default.
  \<^verbatim>\<open>ser.get(key, default)\<close> is the entry under the key when the series has one and the
  default otherwise.
\<close>

datatype pyval = PyInt int | PyFloat real

definition get :: "series \<Rightarrow> string \<Rightarrow> pyval \<Rightarrow> pyval" where
  "get ser key dflt = (case map_of ser key of Some v \<Rightarrow> PyFloat v | None \<Rightarrow> dflt)"

fun value_of :: "pyval \<Rightarrow> real" where
  "value_of (PyInt i) = real_of_int i"
| "value_of (PyFloat x) = x"

section \<open>The chart (lines 21 to 23)\<close>

text \<open>\<^verbatim>\<open>unique()\<close>: the distinct values in order of first appearance.\<close>

fun unique :: "'a list \<Rightarrow> 'a list" where
  "unique [] = []"
| "unique (x # xs) = x # unique (filter (\<lambda>y. y \<noteq> x) xs)"

record line2d =
  label :: string
  xdata :: "real list"
  ydata :: "cell list"

text \<open>
  One call of \<^verbatim>\<open>plt.plot\<close> per iteration of the loop: the line joins the points in the
  order in which the two columns list them.
\<close>

definition plot_lines :: "dataframe \<Rightarrow> line2d list" where
  "plot_lines df =
     map (\<lambda>state.
            let state_data = select (\<lambda>r. State r = state) df
            in \<lparr>label = state,
                xdata = map Time (rows state_data),
                ydata = map Probability (rows state_data)\<rparr>)
       (unique (map State (rows df)))"

definition points :: "line2d \<Rightarrow> (real \<times> cell) list" where
  "points l = zip (xdata l) (ydata l)"

section \<open>The report (lines 39 to 98)\<close>

text \<open>
  The template engine writes \<^verbatim>\<open>str(v)\<close> for a value \<open>v\<close>: decimal digits for an integer;
  the text of a float is the language's own and is a parameter \<open>fmt\<close> here.
\<close>

function str_nat :: "nat \<Rightarrow> string" where
  "str_nat n =
     (if n < 10 then [''0123456789'' ! n]
      else str_nat (n div 10) @ [''0123456789'' ! (n mod 10)])"
  by pat_completeness auto
termination
  by (relation "measure (\<lambda>n. n)") auto

declare str_nat.simps [simp del]

definition str_int :: "int \<Rightarrow> string" where
  "str_int i = (if i < 0 then CHR ''-'' # str_nat (nat (- i)) else str_nat (nat i))"

fun str_value :: "(real \<Rightarrow> string) \<Rightarrow> pyval \<Rightarrow> string" where
  "str_value fmt (PyInt i) = str_int i"
| "str_value fmt (PyFloat x) = fmt x"

record template_context =
  avg_prob_early_light :: pyval
  avg_prob_early_heavy :: pyval
  avg_prob_early_gridlock :: pyval
  avg_prob_rush_hour_light :: pyval
  avg_prob_rush_hour_heavy :: pyval
  avg_prob_rush_hour_gridlock :: pyval
  avg_prob_late_light :: pyval
  avg_prob_late_heavy :: pyval
  avg_prob_late_gridlock :: pyval
  plot_path :: string

text \<open>
  The rendered document as its lines; the file holds them joined by line feeds. The
  template engine drops the last line feed of the template.
\<close>

definition render :: "(real \<Rightarrow> string) \<Rightarrow> template_context \<Rightarrow> string list" where
  \<open>render fmt c =
     [[],
      ''<!DOCTYPE html>'',
      ''<html>'',
      ''<head>'',
      ''    <title>Traffic Simulation Report</title>'',
      ''    <style>'',
      ''        body { font-family: Arial, sans-serif; margin: 20px; }'',
      ''        h1 { text-align: center; }'',
      ''        .section { margin-bottom: 30px; }'',
      ''    </style>'',
      ''</head>'',
      ''<body>'',
      ''    <h1>Traffic Simulation Report</h1>'',
      [],
      ''    <div class="section">'',
      ''        <h2>Average Probabilities</h2>'',
      ''        <p><strong>Early Period (8 AM - 4 PM):</strong></p>'',
      ''        <ul>'',
      ''            <li>Light: '' @ str_value fmt (avg_prob_early_light c) @ ''</li>'',
      ''            <li>Heavy: '' @ str_value fmt (avg_prob_early_heavy c) @ ''</li>'',
      ''            <li>Gridlock: '' @ str_value fmt (avg_prob_early_gridlock c) @ ''</li>'',
      ''        </ul>'',
      [],
      ''        <p><strong>Rush Hour Period (4 PM - 6 PM):</strong></p>'',
      ''        <ul>'',
      ''            <li>Light: '' @ str_value fmt (avg_prob_rush_hour_light c) @ ''</li>'',
      ''            <li>Heavy: '' @ str_value fmt (avg_prob_rush_hour_heavy c) @ ''</li>'',
      ''            <li>Gridlock: '' @ str_value fmt (avg_prob_rush_hour_gridlock c) @ ''</li>'',
      ''        </ul>'',
      [],
      ''        <p><strong>Late Period (6 PM - 8 PM):</strong></p>'',
      ''        <ul>'',
      ''            <li>Light: '' @ str_value fmt (avg_prob_late_light c) @ ''</li>'',
      ''            <li>Heavy: '' @ str_value fmt (avg_prob_late_heavy c) @ ''</li>'',
      ''            <li>Gridlock: '' @ str_value fmt (avg_prob_late_gridlock c) @ ''</li>'',
      ''        </ul>'',
      ''    </div>'',
      [],
      ''    <div class="section">'',
      ''        <h2>Probability Plot</h2>'',
      ''        <img src="'' @ plot_path c @ ''" alt="Traffic State Probabilities">'',
      ''    </div>'',
      ''</body>'',
      ''</html>'']\<close>

text \<open>The keyword arguments of \<^verbatim>\<open>template.render\<close>, lines 88 to 97.\<close>

definition render_context :: "series \<times> series \<times> series \<Rightarrow> string \<Rightarrow> template_context" where
  "render_context avg path =
     (case avg of (early, rush_hour, late) \<Rightarrow>
        \<lparr>avg_prob_early_light = get early ''Light'' (PyInt 0),
         avg_prob_early_heavy = get early ''Heavy'' (PyInt 0),
         avg_prob_early_gridlock = get early ''Gridlock'' (PyInt 0),
         avg_prob_rush_hour_light = get rush_hour ''Light'' (PyInt 0),
         avg_prob_rush_hour_heavy = get rush_hour ''Heavy'' (PyInt 0),
         avg_prob_rush_hour_gridlock = get rush_hour ''Gridlock'' (PyInt 0),
         avg_prob_late_light = get late ''Light'' (PyInt 0),
         avg_prob_late_heavy = get late ''Heavy'' (PyInt 0),
         avg_prob_late_gridlock = get late ''Gridlock'' (PyInt 0),
         plot_path = path\<rparr>)"

section \<open>The whole run\<close>

text \<open>
  What a run leaves behind is the sequence of its visible effects, in the order in which
  they happen, and the way the process ends.
\<close>

datatype file_content = Image "line2d list" | Html "string list" | Pdf string

datatype event = Wrote string file_content | Printed string

datatype exit_status = Normal | Uncaught py_exception

record run =
  trace :: "event list"
  exit_status :: exit_status

text \<open>
  Three things come from outside the script: \<^verbatim>\<open>os.path.abspath\<close>, which depends on the
  working directory, the text of a float, and the converter \<^verbatim>\<open>pdfkit.from_file\<close>, which
  either produces the bytes of the PDF from the HTML file or raises.
\<close>

record environment =
  abspath :: "string \<Rightarrow> string"
  str_float :: "real \<Rightarrow> string"
  from_file :: "string list \<Rightarrow> py_exception + string"

text \<open>\<^verbatim>\<open>except Exception as e\<close> takes every exception but a bare \<^verbatim>\<open>BaseException\<close>.\<close>

fun isinstance_Exception :: "py_exception \<Rightarrow> bool" where
  "isinstance_Exception (BaseException msg) = False"
| "isinstance_Exception e = True"

fun str_exception :: "py_exception \<Rightarrow> string" where
  "str_exception (TypeError msg) = msg"
| "str_exception (Exception msg) = msg"
| "str_exception (BaseException msg) = msg"

text \<open>
  The converter step, lines 108 to 112, after the effects \<open>sofar\<close> of the earlier lines.
\<close>

definition export_pdf :: "environment \<Rightarrow> event list \<Rightarrow> string list \<Rightarrow> run" where
  "export_pdf env sofar html_content =
     (case from_file env html_content of
        Inr pdf \<Rightarrow>
          \<lparr>trace = sofar @ [Wrote ''traffic_simulation_report.pdf'' (Pdf pdf),
                            Printed ''PDF report generated successfully!''],
           exit_status = Normal\<rparr>
      | Inl e \<Rightarrow>
          if isinstance_Exception e
          then \<lparr>trace = sofar @ [Printed (''Error generating PDF: '' @ str_exception e)],
                exit_status = Normal\<rparr>
          else \<lparr>trace = sofar, exit_status = Uncaught e\<rparr>)"

text \<open>
  The script from line 8 to the end, for a table that has been loaded. An exception of
  the aggregation is not caught anywhere, so it ends the run before any file is written.
  Failures of the loader, of the chart library and of the file system are outside the
  model.
\<close>

definition script :: "environment \<Rightarrow> row list \<Rightarrow> run" where
  "script env csv =
     (let df = read_csv csv in
      case aggregate df of
        Inl e \<Rightarrow> \<lparr>trace = [], exit_status = Uncaught e\<rparr>
      | Inr avg \<Rightarrow>
          let plot_filename = ''traffic_probabilities_plot.png'';
              saved = Wrote plot_filename (Image (plot_lines df));
              html_content = render (str_float env) (render_context avg (abspath env plot_filename));
              written = Wrote ''traffic_simulation_report.html'' (Html html_content)
          in export_pdf env [saved, written] html_content)"

section \<open>Properties\<close>

subsection \<open>Tables, selections and series\<close>

lemma rows_select: "rows (select msk df) = filter msk (rows df)"
  by (simp add: select_def)

lemma dtype_select: "Probability_dtype (select msk df) = Probability_dtype df"
  by (simp add: select_def)

lemma rows_read_csv: "rows (read_csv csv) = csv"
  by (simp add: read_csv_def)

lemma dtype_read_csv:
  "Probability_dtype (read_csv csv) = (if list_ex (\<lambda>r. is_Str (Probability r)) csv then object else float64)"
  by (simp add: read_csv_def)

lemma map_of_keys:
  "map_of (map (\<lambda>s. (s, f s)) ks) k = (if k \<in> set ks then Some (f k) else None)"
  by (induction ks) auto

lemma nums_all_Num: "list_all is_Num cs \<Longrightarrow> nums cs = map the_Num cs"
  by (induction cs rule: nums.induct) auto

lemma groupby_mean_float64:
  "groupby_mean float64 gs = Inr (map (\<lambda>(s, cs). (s, arithmetic_mean (nums cs))) gs)"
  by (induction gs) (auto simp: mean_def arithmetic_mean_def Let_def)

lemma avg_prob_float64:
  assumes "Probability_dtype p = float64"
  shows "avg_prob p =
    Inr (map (\<lambda>s. (s, case arithmetic_mean (nums (map Probability (filter (\<lambda>r. State r = s) (rows p)))) of
                         None \<Rightarrow> 0 | Some v \<Rightarrow> v))
          (sort (remdups (map State (rows p)))))"
  using assms
  by (simp add: avg_prob_def groupby_mean_float64 groupby_State_Probability_def fillna_def comp_def)

lemma avg_prob_select_numeric:
  assumes "list_all (\<lambda>r. is_Num (Probability r)) csv"
  shows "\<exists>ser. avg_prob (select msk (read_csv csv)) = Inr ser \<and>
    (\<forall>S. map_of ser S =
       arithmetic_mean (map (\<lambda>r. the_Num (Probability r)) (filter (\<lambda>r. msk r \<and> State r = S) csv)))"
proof -
  let ?p = "select msk (read_csv csv)"
  have noStr: "\<not> list_ex (\<lambda>r. is_Str (Probability r)) csv"
    using assms by (auto simp: list_all_iff list_ex_iff cell.disc)
  then have dt: "Probability_dtype ?p = float64"
    by (simp add: dtype_select dtype_read_csv)
  have rs: "rows ?p = filter msk csv"
    by (simp add: rows_select rows_read_csv)
  have grp: "filter (\<lambda>r. State r = S) (filter msk csv) = filter (\<lambda>r. msk r \<and> State r = S) csv" for S
    by (simp add: conj_commute)
  have num: "nums (map Probability (filter (\<lambda>r. msk r \<and> State r = S) csv))
      = map (\<lambda>r. the_Num (Probability r)) (filter (\<lambda>r. msk r \<and> State r = S) csv)" for S
  proof -
    have "list_all is_Num (map Probability (filter (\<lambda>r. msk r \<and> State r = S) csv))"
      using assms by (auto simp: list_all_iff)
    then show ?thesis by (simp add: nums_all_Num comp_def)
  qed
  have look: "map_of (map (\<lambda>s. (s, case arithmetic_mean (nums (map Probability (filter (\<lambda>r. State r = s) (rows ?p)))) of
                         None \<Rightarrow> 0 | Some v \<Rightarrow> v)) (sort (remdups (map State (rows ?p))))) S
      = arithmetic_mean (map (\<lambda>r. the_Num (Probability r)) (filter (\<lambda>r. msk r \<and> State r = S) csv))" for S
  proof (cases "filter (\<lambda>r. msk r \<and> State r = S) csv = []")
    case True
    then have "S \<notin> set (map State (filter msk csv))"
      by (auto simp: filter_empty_conv)
    then show ?thesis using True
      by (simp add: map_of_keys rs arithmetic_mean_def)
  next
    case False
    then have "S \<in> set (map State (filter msk csv))"
      by (auto simp: filter_empty_conv)
    then show ?thesis using False
      by (simp add: map_of_keys rs grp num arithmetic_mean_def)
  qed
  show ?thesis
    using avg_prob_float64 [OF dt] look by simp
qed

text \<open>
  Claim C1. When every field of the column \<^verbatim>\<open>Probability\<close> is a number, the aggregation
  succeeds, and in each of the three series the entry of a state \<open>S\<close> is the arithmetic
  mean of \<^verbatim>\<open>Probability\<close> over exactly the rows whose \<^verbatim>\<open>Time\<close> lies in the window of the
  period (8 to 16 exclusive, 16 to 18 exclusive, 18 to 20 inclusive) and whose \<^verbatim>\<open>State\<close> is
  \<open>S\<close>; the series has no entry for \<open>S\<close> exactly when there is no such row.
\<close>

theorem aggregate_is_mean_per_period_and_state:
  assumes "list_all (\<lambda>r. is_Num (Probability r)) csv"
  shows "\<exists>early rush late. aggregate (read_csv csv) = Inr (early, rush, late) \<and>
    (\<forall>S. map_of early S = arithmetic_mean (map (\<lambda>r. the_Num (Probability r))
        (filter (\<lambda>r. (8 \<le> Time r \<and> Time r < 16) \<and> State r = S) csv))) \<and>
    (\<forall>S. map_of rush S = arithmetic_mean (map (\<lambda>r. the_Num (Probability r))
        (filter (\<lambda>r. (16 \<le> Time r \<and> Time r < 18) \<and> State r = S) csv))) \<and>
    (\<forall>S. map_of late S = arithmetic_mean (map (\<lambda>r. the_Num (Probability r))
        (filter (\<lambda>r. (18 \<le> Time r \<and> Time r \<le> 20) \<and> State r = S) csv)))"
proof -
  obtain early where e: "avg_prob_early (read_csv csv) = Inr early"
    "\<forall>S. map_of early S = arithmetic_mean (map (\<lambda>r. the_Num (Probability r))
        (filter (\<lambda>r. (8 \<le> Time r \<and> Time r < 16) \<and> State r = S) csv))"
    using avg_prob_select_numeric [OF assms, of "\<lambda>r. 8 \<le> Time r \<and> Time r < 16"]
    unfolding avg_prob_early_def early_period_def by auto
  obtain rush where r: "avg_prob_rush_hour (read_csv csv) = Inr rush"
    "\<forall>S. map_of rush S = arithmetic_mean (map (\<lambda>r. the_Num (Probability r))
        (filter (\<lambda>r. (16 \<le> Time r \<and> Time r < 18) \<and> State r = S) csv))"
    using avg_prob_select_numeric [OF assms, of "\<lambda>r. 16 \<le> Time r \<and> Time r < 18"]
    unfolding avg_prob_rush_hour_def rush_hour_period_def by auto
  obtain late where l: "avg_prob_late (read_csv csv) = Inr late"
    "\<forall>S. map_of late S = arithmetic_mean (map (\<lambda>r. the_Num (Probability r))
        (filter (\<lambda>r. (18 \<le> Time r \<and> Time r \<le> 20) \<and> State r = S) csv))"
    using avg_prob_select_numeric [OF assms, of "\<lambda>r. 18 \<le> Time r \<and> Time r \<le> 20"]
    unfolding avg_prob_late_def late_period_def by auto
  have "aggregate (read_csv csv) = Inr (early, rush, late)"
    by (simp add: aggregate_def e(1) r(1) l(1))
  with e(2) r(2) l(2) show ?thesis by blast
qed

theorem aggregate_is_mean_witness:
  "list_all (\<lambda>r. is_Num (Probability r))
     [\<lparr>Time = 8, State = ''Light'', Probability = Num (2/10)\<rparr>,
      \<lparr>Time = 16, State = ''Heavy'', Probability = Num (9/10)\<rparr>,
      \<lparr>Time = 20, State = ''Light'', Probability = Num (1/2)\<rparr>,
      \<lparr>Time = 9, State = ''Light'', Probability = Num (4/10)\<rparr>] \<and>
   (\<exists>early rush late.
      aggregate (read_csv
        [\<lparr>Time = 8, State = ''Light'', Probability = Num (2/10)\<rparr>,
         \<lparr>Time = 16, State = ''Heavy'', Probability = Num (9/10)\<rparr>,
         \<lparr>Time = 20, State = ''Light'', Probability = Num (1/2)\<rparr>,
         \<lparr>Time = 9, State = ''Light'', Probability = Num (4/10)\<rparr>]) = Inr (early, rush, late) \<and>
      map_of early ''Light'' = Some (3/10) \<and> map_of early ''Heavy'' = None \<and>
      map_of rush ''Heavy'' = Some (9/10) \<and> map_of rush ''Light'' = None \<and>
      map_of late ''Light'' = Some (1/2))"
proof -
  let ?csv = "[\<lparr>Time = 8, State = ''Light'', Probability = Num (2/10)\<rparr>,
      \<lparr>Time = 16, State = ''Heavy'', Probability = Num (9/10)\<rparr>,
      \<lparr>Time = 20, State = ''Light'', Probability = Num (1/2)\<rparr>,
      \<lparr>Time = 9, State = ''Light'', Probability = Num (4/10)\<rparr>]"
  have h: "list_all (\<lambda>r. is_Num (Probability r)) ?csv" by simp
  obtain early rush late where a: "aggregate (read_csv ?csv) = Inr (early, rush, late)"
    and e: "\<And>S. map_of early S = arithmetic_mean (map (\<lambda>r. the_Num (Probability r))
        (filter (\<lambda>r. (8 \<le> Time r \<and> Time r < 16) \<and> State r = S) ?csv))"
    and r: "\<And>S. map_of rush S = arithmetic_mean (map (\<lambda>r. the_Num (Probability r))
        (filter (\<lambda>r. (16 \<le> Time r \<and> Time r < 18) \<and> State r = S) ?csv))"
    and l: "\<And>S. map_of late S = arithmetic_mean (map (\<lambda>r. the_Num (Probability r))
        (filter (\<lambda>r. (18 \<le> Time r \<and> Time r \<le> 20) \<and> State r = S) ?csv))"
    using aggregate_is_mean_per_period_and_state [OF h] by blast
  have "map_of early ''Light'' = Some (3/10)" "map_of early ''Heavy'' = None"
    "map_of rush ''Heavy'' = Some (9/10)" "map_of rush ''Light'' = None"
    "map_of late ''Light'' = Some (1/2)"
    by (simp_all add: e r l arithmetic_mean_def)
  with a h show ?thesis by blast
qed

text \<open>
  Outside the hypothesis of the theorem above, a missing field is skipped by \<^verbatim>\<open>mean\<close>, and
  a group with no number at all has the mean NaN, which \<^verbatim>\<open>fillna(0)\<close> stores as 0.
\<close>

lemma missing_probability_skipped:
  "aggregate (read_csv
     [\<lparr>Time = 9, State = ''Light'', Probability = NaN\<rparr>,
      \<lparr>Time = 10, State = ''Light'', Probability = Num (4/10)\<rparr>,
      \<lparr>Time = 17, State = ''Heavy'', Probability = NaN\<rparr>])
   = Inr ([(''Light'', 4/10)], [(''Heavy'', 0)], [])"
  by (simp add: aggregate_def avg_prob_early_def avg_prob_rush_hour_def avg_prob_late_def
      early_period_def rush_hour_period_def late_period_def select_def read_csv_def
      avg_prob_def groupby_State_Probability_def mean_def fillna_def)



text \<open>
  Claim C10. The three selections are pairwise disjoint, and a row occurs in the three
  selections together at most as often as it occurs in the table: no observation counts
  towards more than one period's mean.
\<close>

theorem periods_disjoint:
  "set (rows (early_period df)) \<inter> set (rows (rush_hour_period df)) = {} \<and>
   set (rows (early_period df)) \<inter> set (rows (late_period df)) = {} \<and>
   set (rows (rush_hour_period df)) \<inter> set (rows (late_period df)) = {} \<and>
   count_list (rows (early_period df)) r + count_list (rows (rush_hour_period df)) r
     + count_list (rows (late_period df)) r \<le> count_list (rows df) r"
proof -
  have cnt: "count_list (filter P xs) r = (if P r then count_list xs r else 0)" for P and xs :: "row list"
    by (induction xs) auto
  have "set (rows (early_period df)) \<inter> set (rows (rush_hour_period df)) = {}"
    "set (rows (early_period df)) \<inter> set (rows (late_period df)) = {}"
    "set (rows (rush_hour_period df)) \<inter> set (rows (late_period df)) = {}"
    by (auto simp: early_period_def rush_hour_period_def late_period_def rows_select)
  moreover have "count_list (rows (early_period df)) r + count_list (rows (rush_hour_period df)) r
     + count_list (rows (late_period df)) r \<le> count_list (rows df) r"
    by (simp add: early_period_def rush_hour_period_def late_period_def rows_select cnt)
  ultimately show ?thesis by simp
qed

theorem periods_disjoint_witness:
  "count_list (rows (early_period (read_csv
       [\<lparr>Time = 16, State = ''Heavy'', Probability = Num (9/10)\<rparr>,
        \<lparr>Time = 18, State = ''Light'', Probability = Num (1/2)\<rparr>])))
     \<lparr>Time = 16, State = ''Heavy'', Probability = Num (9/10)\<rparr>
   + count_list (rows (rush_hour_period (read_csv
       [\<lparr>Time = 16, State = ''Heavy'', Probability = Num (9/10)\<rparr>,
        \<lparr>Time = 18, State = ''Light'', Probability = Num (1/2)\<rparr>])))
     \<lparr>Time = 16, State = ''Heavy'', Probability = Num (9/10)\<rparr>
   + count_list (rows (late_period (read_csv
       [\<lparr>Time = 16, State = ''Heavy'', Probability = Num (9/10)\<rparr>,
        \<lparr>Time = 18, State = ''Light'', Probability = Num (1/2)\<rparr>])))
     \<lparr>Time = 16, State = ''Heavy'', Probability = Num (9/10)\<rparr> \<le> 1"
  using periods_disjoint [of "read_csv
       [\<lparr>Time = 16, State = ''Heavy'', Probability = Num (9/10)\<rparr>,
        \<lparr>Time = 18, State = ''Light'', Probability = Num (1/2)\<rparr>]"
     "\<lparr>Time = 16, State = ''Heavy'', Probability = Num (9/10)\<rparr>"]
  by (simp add: rows_read_csv)

text \<open>
  Claim C6. For the table with the rows (8, Light, 0.2), (9, Light, 0.4) and
  (17, Heavy, 0.9) the early series holds Light with 0.3 and nothing for Heavy, the rush
  hour series holds Heavy with 0.9 and nothing for Light, the late series is empty, and
  the absent entries read as 0 through \<^const>\<open>get\<close>.
\<close>

theorem example_dataset_aggregate:
  "aggregate (read_csv
     [\<lparr>Time = 8, State = ''Light'', Probability = Num (2/10)\<rparr>,
      \<lparr>Time = 9, State = ''Light'', Probability = Num (4/10)\<rparr>,
      \<lparr>Time = 17, State = ''Heavy'', Probability = Num (9/10)\<rparr>])
     = Inr ([(''Light'', 3/10)], [(''Heavy'', 9/10)], []) \<and>
   get [(''Light'', 3/10)] ''Light'' (PyInt 0) = PyFloat (3/10) \<and>
   get [(''Light'', 3/10)] ''Heavy'' (PyInt 0) = PyInt 0 \<and>
   get [(''Heavy'', 9/10)] ''Heavy'' (PyInt 0) = PyFloat (9/10) \<and>
   get [(''Heavy'', 9/10)] ''Light'' (PyInt 0) = PyInt 0 \<and>
   get [] ''Light'' (PyInt 0) = PyInt 0 \<and>
   get [] ''Heavy'' (PyInt 0) = PyInt 0 \<and>
   get [] ''Gridlock'' (PyInt 0) = PyInt 0 \<and>
   value_of (PyInt 0) = 0"
  by (simp add: aggregate_def avg_prob_early_def avg_prob_rush_hour_def avg_prob_late_def
      early_period_def rush_hour_period_def late_period_def select_def read_csv_def
      avg_prob_def groupby_State_Probability_def mean_def fillna_def get_def)

text \<open>
  Claim C9, as the script has it. A row whose \<^verbatim>\<open>Time\<close> is below 8 or above 20 is selected
  into none of the three periods of any table. Appending such a row leaves the result of
  the aggregation unchanged as long as it does not change the type of the column
  \<^verbatim>\<open>Probability\<close>: its field is a number or missing, or the column holds text already.
\<close>

theorem outside_hours_row_ignored:
  assumes "Time r < 8 \<or> Time r > 20"
    and "\<not> is_Str (Probability r) \<or> list_ex (\<lambda>x. is_Str (Probability x)) csv"
  shows "r \<notin> set (rows (early_period df)) \<and>
         r \<notin> set (rows (rush_hour_period df)) \<and>
         r \<notin> set (rows (late_period df)) \<and>
         aggregate (read_csv (csv @ [r])) = aggregate (read_csv csv)"
proof -
  have out: "\<not> (8 \<le> Time r \<and> Time r < 16)" "\<not> (16 \<le> Time r \<and> Time r < 18)"
    "\<not> (18 \<le> Time r \<and> Time r \<le> 20)"
    using assms(1) by auto
  have dt: "Probability_dtype (read_csv (csv @ [r])) = Probability_dtype (read_csv csv)"
    using assms(2) by (auto simp: read_csv_def)
  have sel: "select msk (read_csv (csv @ [r])) = select msk (read_csv csv)" if "\<not> msk r" for msk
    using that dt by (simp add: select_def read_csv_def)
  have "early_period (read_csv (csv @ [r])) = early_period (read_csv csv)"
    "rush_hour_period (read_csv (csv @ [r])) = rush_hour_period (read_csv csv)"
    "late_period (read_csv (csv @ [r])) = late_period (read_csv csv)"
    unfolding early_period_def rush_hour_period_def late_period_def
    using out by (simp_all add: sel)
  then have "avg_prob_early (read_csv (csv @ [r])) = avg_prob_early (read_csv csv)"
    "avg_prob_rush_hour (read_csv (csv @ [r])) = avg_prob_rush_hour (read_csv csv)"
    "avg_prob_late (read_csv (csv @ [r])) = avg_prob_late (read_csv csv)"
    by (simp_all add: avg_prob_early_def avg_prob_rush_hour_def avg_prob_late_def)
  then have "aggregate (read_csv (csv @ [r])) = aggregate (read_csv csv)"
    unfolding aggregate_def by (simp only:)
  moreover have "r \<notin> set (rows (early_period df))" "r \<notin> set (rows (rush_hour_period df))"
    "r \<notin> set (rows (late_period df))"
    using out by (simp_all add: early_period_def rush_hour_period_def late_period_def rows_select)
  ultimately show ?thesis by simp
qed

theorem outside_hours_row_ignored_witness:
  "Time \<lparr>Time = 21, State = ''Light'', Probability = Num (7/10)\<rparr> > 20 \<and>
   is_Num (Probability \<lparr>Time = 21, State = ''Light'', Probability = Num (7/10)\<rparr>) \<and>
   aggregate (read_csv ([\<lparr>Time = 19, State = ''Light'', Probability = Num (1/2)\<rparr>]
       @ [\<lparr>Time = 21, State = ''Light'', Probability = Num (7/10)\<rparr>]))
     = Inr ([], [], [(''Light'', 1/2)])"
proof -
  let ?r = "\<lparr>Time = 21, State = ''Light'', Probability = Num (7/10)\<rparr>"
  let ?csv = "[\<lparr>Time = 19, State = ''Light'', Probability = Num (1/2)\<rparr>]"
  have h1: "Time ?r < 8 \<or> Time ?r > 20"
    and h2: "\<not> is_Str (Probability ?r) \<or> list_ex (\<lambda>x. is_Str (Probability x)) ?csv"
    by simp_all
  have "aggregate (read_csv ?csv) = Inr ([], [], [(''Light'', 1/2)])"
    by (simp add: aggregate_def avg_prob_early_def avg_prob_rush_hour_def avg_prob_late_def
      early_period_def rush_hour_period_def late_period_def select_def read_csv_def
      avg_prob_def groupby_State_Probability_def mean_def fillna_def)
  with outside_hours_row_ignored [OF h1 h2, of "read_csv []"]
  show ?thesis by simp
qed

theorem outside_hours_text_row_counterexample:
  "Time \<lparr>Time = 5, State = ''Light'', Probability = Str ''abc''\<rparr> < 8 \<and>
   aggregate (read_csv [\<lparr>Time = 9, State = ''Light'', Probability = Num (4/10)\<rparr>])
     = Inr ([(''Light'', 4/10)], [], []) \<and>
   aggregate (read_csv ([\<lparr>Time = 9, State = ''Light'', Probability = Num (4/10)\<rparr>]
       @ [\<lparr>Time = 5, State = ''Light'', Probability = Str ''abc''\<rparr>]))
     = Inl (TypeError ''agg function failed [how->mean,dtype->object]'')"
  by (simp add: aggregate_def avg_prob_early_def avg_prob_rush_hour_def avg_prob_late_def
      early_period_def rush_hour_period_def late_period_def select_def read_csv_def
      avg_prob_def groupby_State_Probability_def mean_def fillna_def)

subsection \<open>The report and the converter\<close>

lemma aggregate_empty: "aggregate (read_csv []) = Inr ([], [], [])"
  by (simp add: aggregate_def avg_prob_early_def avg_prob_rush_hour_def avg_prob_late_def
      early_period_def rush_hour_period_def late_period_def select_def read_csv_def
      avg_prob_def groupby_State_Probability_def fillna_def)

lemma str_int_0: "str_int 0 = ''0''"
  by (simp add: str_int_def str_nat.simps)

lemma script_reaches_export:
  assumes "aggregate (read_csv csv) = Inr avg"
  shows "script env csv =
    export_pdf env
      [Wrote ''traffic_probabilities_plot.png'' (Image (plot_lines (read_csv csv))),
       Wrote ''traffic_simulation_report.html''
         (Html (render (str_float env)
            (render_context avg (abspath env ''traffic_probabilities_plot.png''))))]
      (render (str_float env) (render_context avg (abspath env ''traffic_probabilities_plot.png'')))"
  using assms by (simp add: script_def Let_def)

lemma trace_export_pdf_nth:
  "i < length sofar \<Longrightarrow> trace (export_pdf env sofar html) ! i = sofar ! i"
  by (simp add: export_pdf_def nth_append split: sum.splits)

text \<open>
  Claim C4. The empty table is aggregated without an error to three empty series; the nine
  values handed to the template are then the integer default 0, the nine list items of
  the document read 0, and this document is the HTML file the run writes.
\<close>

theorem empty_dataset_report:
  "aggregate (read_csv []) = Inr ([], [], []) \<and>
   render_context ([], [], []) path =
     \<lparr>avg_prob_early_light = PyInt 0, avg_prob_early_heavy = PyInt 0,
      avg_prob_early_gridlock = PyInt 0, avg_prob_rush_hour_light = PyInt 0,
      avg_prob_rush_hour_heavy = PyInt 0, avg_prob_rush_hour_gridlock = PyInt 0,
      avg_prob_late_light = PyInt 0, avg_prob_late_heavy = PyInt 0,
      avg_prob_late_gridlock = PyInt 0, plot_path = path\<rparr> \<and>
   filter (\<lambda>l. take 4 (dropWhile (\<lambda>c. c = CHR '' '') l) = ''<li>'')
       (render fmt (render_context ([], [], []) path)) =
     [''            <li>Light: 0</li>'', ''            <li>Heavy: 0</li>'',
      ''            <li>Gridlock: 0</li>'',
      ''            <li>Light: 0</li>'', ''            <li>Heavy: 0</li>'',
      ''            <li>Gridlock: 0</li>'',
      ''            <li>Light: 0</li>'', ''            <li>Heavy: 0</li>'',
      ''            <li>Gridlock: 0</li>''] \<and>
   trace (script env []) ! 1 =
     Wrote ''traffic_simulation_report.html''
       (Html (render (str_float env)
          (render_context ([], [], []) (abspath env ''traffic_probabilities_plot.png''))))"
proof -
  have ctx: "render_context ([], [], []) p =
     \<lparr>avg_prob_early_light = PyInt 0, avg_prob_early_heavy = PyInt 0,
      avg_prob_early_gridlock = PyInt 0, avg_prob_rush_hour_light = PyInt 0,
      avg_prob_rush_hour_heavy = PyInt 0, avg_prob_rush_hour_gridlock = PyInt 0,
      avg_prob_late_light = PyInt 0, avg_prob_late_heavy = PyInt 0,
      avg_prob_late_gridlock = PyInt 0, plot_path = p\<rparr>" for p
    by (simp add: render_context_def get_def)
  have items: "filter (\<lambda>l. take 4 (dropWhile (\<lambda>c. c = CHR '' '') l) = ''<li>'')
       (render fmt (render_context ([], [], []) path)) =
     [''            <li>Light: 0</li>'', ''            <li>Heavy: 0</li>'',
      ''            <li>Gridlock: 0</li>'',
      ''            <li>Light: 0</li>'', ''            <li>Heavy: 0</li>'',
      ''            <li>Gridlock: 0</li>'',
      ''            <li>Light: 0</li>'', ''            <li>Heavy: 0</li>'',
      ''            <li>Gridlock: 0</li>'']"
    by (simp add: ctx render_def str_int_0)
  have written: "trace (script env []) ! 1 =
     Wrote ''traffic_simulation_report.html''
       (Html (render (str_float env)
          (render_context ([], [], []) (abspath env ''traffic_probabilities_plot.png''))))"
    unfolding script_reaches_export [OF aggregate_empty]
    by (simp add: trace_export_pdf_nth)
  from aggregate_empty ctx items written show ?thesis by simp
qed

text \<open>
  Claim C3. In a run that reaches the converter, if the converter raises an exception of
  class \<^verbatim>\<open>Exception\<close>, the effects of the run are, in this order: the chart is saved, the
  HTML report is written, and the line \<^verbatim>\<open>Error generating PDF:\<close> followed by the text of the
  exception is printed; no PDF is written and the process ends normally.
\<close>

theorem export_failure_is_reported:
  assumes "aggregate (read_csv csv) = Inr avg"
    and "from_file env (render (str_float env)
           (render_context avg (abspath env ''traffic_probabilities_plot.png''))) = Inl e"
    and "isinstance_Exception e"
  shows "script env csv =
    \<lparr>trace =
       [Wrote ''traffic_probabilities_plot.png'' (Image (plot_lines (read_csv csv))),
        Wrote ''traffic_simulation_report.html''
          (Html (render (str_float env)
             (render_context avg (abspath env ''traffic_probabilities_plot.png'')))),
        Printed (''Error generating PDF: '' @ str_exception e)],
     exit_status = Normal\<rparr>"
  unfolding script_reaches_export [OF assms(1)]
  using assms(2,3) by (simp add: export_pdf_def)

theorem export_failure_is_reported_witness:
  "script \<lparr>abspath = (\<lambda>p. ''/home/user/'' @ p), str_float = (\<lambda>x. ''0.5''),
            from_file = (\<lambda>html. Inl (Exception ''No wkhtmltopdf executable found''))\<rparr> []
   = \<lparr>trace =
       [Wrote ''traffic_probabilities_plot.png'' (Image []),
        Wrote ''traffic_simulation_report.html''
          (Html (render (\<lambda>x. ''0.5'')
             (render_context ([], [], []) ''/home/user/traffic_probabilities_plot.png''))),
        Printed ''Error generating PDF: No wkhtmltopdf executable found''],
      exit_status = Normal\<rparr>"
proof -
  let ?env = "\<lparr>abspath = (\<lambda>p. ''/home/user/'' @ p), str_float = (\<lambda>x. ''0.5''),
            from_file = (\<lambda>html. Inl (Exception ''No wkhtmltopdf executable found''))\<rparr>"
  have h2: "from_file ?env (render (str_float ?env)
           (render_context ([], [], []) (abspath ?env ''traffic_probabilities_plot.png'')))
        = Inl (Exception ''No wkhtmltopdf executable found'')"
    by simp
  have h3: "isinstance_Exception (Exception ''No wkhtmltopdf executable found'')"
    by simp
  have pl: "plot_lines (read_csv []) = []"
    by (simp add: plot_lines_def read_csv_def)
  show ?thesis
    using export_failure_is_reported [OF aggregate_empty h2 h3]
    by (simp add: pl)
qed

subsection \<open>The chart\<close>

lemma set_unique: "set (unique xs) = set xs"
  by (induction xs rule: unique.induct) auto

lemma distinct_unique: "distinct (unique xs)"
  by (induction xs rule: unique.induct) (auto simp: set_unique)

lemma labels_plot_lines: "map label (plot_lines df) = unique (map State (rows df))"
  by (simp add: plot_lines_def Let_def comp_def)

lemma points_plot_lines:
  assumes "l \<in> set (plot_lines df)"
  shows "points l = map (\<lambda>r. (Time r, Probability r)) (filter (\<lambda>r. State r = label l) (rows df))"
    and "xdata l = map Time (filter (\<lambda>r. State r = label l) (rows df))"
  using assms by (auto simp: plot_lines_def Let_def points_def rows_select zip_map_map zip_same_conv_map)

text \<open>
  Claim C8, as the script has it. The chart holds exactly one line per distinct state, in
  order of first appearance, and the points of a line are those of the rows of its state
  in the order of the table. The script does not sort: the times of a line ascend when
  the table itself is in ascending order of \<^verbatim>\<open>Time\<close>.
\<close>

theorem plot_lines_follow_table_order:
  "map label (plot_lines df) = unique (map State (rows df)) \<and>
   distinct (map label (plot_lines df)) \<and>
   set (map label (plot_lines df)) = State ` set (rows df) \<and>
   (\<forall>l \<in> set (plot_lines df).
      points l = map (\<lambda>r. (Time r, Probability r)) (filter (\<lambda>r. State r = label l) (rows df))) \<and>
   (sorted (map Time (rows df)) \<longrightarrow> (\<forall>l \<in> set (plot_lines df). sorted (map fst (points l))))"
proof -
  have "sorted (map fst (points l))"
    if "sorted (map Time (rows df))" and "l \<in> set (plot_lines df)" for l
  proof -
    have "map fst (points l) = map Time (filter (\<lambda>r. State r = label l) (rows df))"
      using points_plot_lines(1) [OF that(2)] by (simp add: comp_def)
    then show ?thesis using that(1) by (simp add: sorted_filter)
  qed
  then show ?thesis
    by (simp add: labels_plot_lines distinct_unique set_unique points_plot_lines(1))
qed

theorem plot_lines_follow_table_order_witness:
  "sorted (map Time (rows (read_csv
      [\<lparr>Time = 8, State = ''Light'', Probability = Num (2/10)\<rparr>,
       \<lparr>Time = 9, State = ''Heavy'', Probability = Num (1/2)\<rparr>,
       \<lparr>Time = 10, State = ''Light'', Probability = Num (4/10)\<rparr>]))) \<and>
   map label (plot_lines (read_csv
      [\<lparr>Time = 8, State = ''Light'', Probability = Num (2/10)\<rparr>,
       \<lparr>Time = 9, State = ''Heavy'', Probability = Num (1/2)\<rparr>,
       \<lparr>Time = 10, State = ''Light'', Probability = Num (4/10)\<rparr>])) = [''Light'', ''Heavy''] \<and>
   list_all (\<lambda>l. sorted (map fst (points l))) (plot_lines (read_csv
      [\<lparr>Time = 8, State = ''Light'', Probability = Num (2/10)\<rparr>,
       \<lparr>Time = 9, State = ''Heavy'', Probability = Num (1/2)\<rparr>,
       \<lparr>Time = 10, State = ''Light'', Probability = Num (4/10)\<rparr>]))"
proof -
  let ?df = "read_csv
      [\<lparr>Time = 8, State = ''Light'', Probability = Num (2/10)\<rparr>,
       \<lparr>Time = 9, State = ''Heavy'', Probability = Num (1/2)\<rparr>,
       \<lparr>Time = 10, State = ''Light'', Probability = Num (4/10)\<rparr>]"
  have s: "sorted (map Time (rows ?df))"
    by (simp add: rows_read_csv)
  have u: "unique (map State (rows ?df)) = [''Light'', ''Heavy'']"
    by (simp add: rows_read_csv)
  note t = plot_lines_follow_table_order [of ?df]
  from t have "map label (plot_lines ?df) = unique (map State (rows ?df))"
    by (rule conjunct1)
  with u have a: "map label (plot_lines ?df) = [''Light'', ''Heavy'']"
    by (simp only:)
  from t have "sorted (map Time (rows ?df)) \<longrightarrow>
      (\<forall>l \<in> set (plot_lines ?df). sorted (map fst (points l)))"
    by blast
  with s have b: "list_all (\<lambda>l. sorted (map fst (points l))) (plot_lines ?df)"
    unfolding list_all_iff by blast
  from s a b show ?thesis by blast
qed

theorem plot_points_unsorted_counterexample:
  "plot_lines (read_csv
      [\<lparr>Time = 10, State = ''Light'', Probability = Num (1/2)\<rparr>,
       \<lparr>Time = 9, State = ''Light'', Probability = Num (4/10)\<rparr>])
     = [\<lparr>label = ''Light'', xdata = [10, 9], ydata = [Num (1/2), Num (4/10)]\<rparr>] \<and>
   \<not> list_all (\<lambda>l. sorted (map fst (points l))) (plot_lines (read_csv
      [\<lparr>Time = 10, State = ''Light'', Probability = Num (1/2)\<rparr>,
       \<lparr>Time = 9, State = ''Light'', Probability = Num (4/10)\<rparr>]))"
  by (simp add: plot_lines_def read_csv_def select_def points_def)

subsection \<open>A column that is not numeric\<close>

lemma groupby_mean_error:
  "groupby_mean dt gs = Inl e \<Longrightarrow> e = TypeError ''agg function failed [how->mean,dtype->object]''"
  by (induction gs arbitrary: e)
    (auto simp: mean_def split: sum.splits dtype.splits if_splits)

lemma groupby_mean_object_fails:
  assumes "(s, cs) \<in> set gs" and "\<not> list_all is_NaN cs"
  shows "groupby_mean object gs = Inl (TypeError ''agg function failed [how->mean,dtype->object]'')"
  using assms
proof (induction gs)
  case Nil
  then show ?case by simp
next
  case (Cons g gs)
  obtain s' cs' where g: "g = (s', cs')" by (cases g)
  show ?case
  proof (cases "list_all is_NaN cs'")
    case False
    then show ?thesis by (simp add: g mean_def)
  next
    case True
    with Cons.prems g have "(s, cs) \<in> set gs" by auto
    with Cons.IH Cons.prems(2) show ?thesis
      by (simp add: g mean_def True)
  qed
qed

lemma avg_prob_error:
  "avg_prob p = Inl e \<Longrightarrow> e = TypeError ''agg function failed [how->mean,dtype->object]''"
  by (auto simp: avg_prob_def split: sum.splits dest: groupby_mean_error)

lemma avg_prob_object_fails:
  assumes "Probability_dtype p = object" and "r \<in> set (rows p)" and "\<not> is_NaN (Probability r)"
  shows "avg_prob p = Inl (TypeError ''agg function failed [how->mean,dtype->object]'')"
proof -
  let ?cs = "map Probability (filter (\<lambda>x. State x = State r) (rows p))"
  have "Probability r \<in> set ?cs" using assms(2) by auto
  with assms(3) have "\<not> list_all is_NaN ?cs"
    by (auto simp: list_all_iff)
  moreover have "(State r, ?cs) \<in> set (groupby_State_Probability p)"
    using assms(2) by (auto simp: groupby_State_Probability_def)
  ultimately show ?thesis
    using assms(1) by (simp add: avg_prob_def groupby_mean_object_fails)
qed

lemma aggregate_error:
  "aggregate df = Inl e \<Longrightarrow> e = TypeError ''agg function failed [how->mean,dtype->object]''"
  by (auto simp: aggregate_def avg_prob_early_def avg_prob_rush_hour_def avg_prob_late_def
      split: sum.splits dest: avg_prob_error)

text \<open>
  Claim C5, as the script has it. When some field of the column \<^verbatim>\<open>Probability\<close> is text,
  in whatever row, and some row whose \<^verbatim>\<open>Time\<close> lies between 8 and 20 has a field that is
  not missing, the aggregation raises the table library's \<^verbatim>\<open>TypeError\<close> for a mean over a
  column that is not numeric. The exception carries one fixed message and no row index,
  nothing catches it, and the run ends with it before any file is written or line printed.
\<close>

theorem text_probability_raises_TypeError:
  assumes "t \<in> set csv" and "is_Str (Probability t)"
    and "r \<in> set csv" and "\<not> is_NaN (Probability r)" and "8 \<le> Time r" and "Time r \<le> 20"
  shows "aggregate (read_csv csv) = Inl (TypeError ''agg function failed [how->mean,dtype->object]'') \<and>
         script env csv =
           \<lparr>trace = [],
            exit_status = Uncaught (TypeError ''agg function failed [how->mean,dtype->object]'')\<rparr>"
proof -
  let ?df = "read_csv csv"
  have dt: "Probability_dtype ?df = object"
    using assms(1,2) by (auto simp: dtype_read_csv list_ex_iff)
  have dts: "Probability_dtype (select msk ?df) = object" for msk
    by (simp add: dtype_select dt)
  consider "r \<in> set (rows (early_period ?df))" | "r \<in> set (rows (rush_hour_period ?df))"
    | "r \<in> set (rows (late_period ?df))"
    using assms(3,5,6)
    by (fastforce simp: early_period_def rush_hour_period_def late_period_def rows_select rows_read_csv)
  then have "\<exists>e. aggregate ?df = Inl e"
  proof cases
    case 1
    have "avg_prob_early ?df = Inl (TypeError ''agg function failed [how->mean,dtype->object]'')"
      unfolding avg_prob_early_def
      using avg_prob_object_fails [OF _ 1 assms(4)] by (simp add: early_period_def dts)
    then show ?thesis by (simp add: aggregate_def)
  next
    case 2
    have "avg_prob_rush_hour ?df = Inl (TypeError ''agg function failed [how->mean,dtype->object]'')"
      unfolding avg_prob_rush_hour_def
      using avg_prob_object_fails [OF _ 2 assms(4)] by (simp add: rush_hour_period_def dts)
    then show ?thesis by (simp add: aggregate_def split: sum.splits)
  next
    case 3
    have "avg_prob_late ?df = Inl (TypeError ''agg function failed [how->mean,dtype->object]'')"
      unfolding avg_prob_late_def
      using avg_prob_object_fails [OF _ 3 assms(4)] by (simp add: late_period_def dts)
    then show ?thesis by (simp add: aggregate_def split: sum.splits)
  qed
  then have agg: "aggregate ?df = Inl (TypeError ''agg function failed [how->mean,dtype->object]'')"
    using aggregate_error by blast
  then show ?thesis by (simp add: script_def)
qed

theorem text_probability_raises_TypeError_witness:
  "aggregate (read_csv
      [\<lparr>Time = 9, State = ''Light'', Probability = Num (4/10)\<rparr>,
       \<lparr>Time = 23, State = ''Heavy'', Probability = Str ''n.a.''\<rparr>])
     = Inl (TypeError ''agg function failed [how->mean,dtype->object]'') \<and>
   script \<lparr>abspath = (\<lambda>p. ''/home/user/'' @ p), str_float = (\<lambda>x. ''0.5''),
            from_file = (\<lambda>html. Inr ''%PDF'')\<rparr>
      [\<lparr>Time = 9, State = ''Light'', Probability = Num (4/10)\<rparr>,
       \<lparr>Time = 23, State = ''Heavy'', Probability = Str ''n.a.''\<rparr>]
     = \<lparr>trace = [],
        exit_status = Uncaught (TypeError ''agg function failed [how->mean,dtype->object]'')\<rparr>"
proof -
  let ?t = "\<lparr>Time = 23, State = ''Heavy'', Probability = Str ''n.a.''\<rparr>"
  let ?r = "\<lparr>Time = 9, State = ''Light'', Probability = Num (4/10)\<rparr>"
  have h: "?t \<in> set [?r, ?t]" "is_Str (Probability ?t)"
    "?r \<in> set [?r, ?t]" "\<not> is_NaN (Probability ?r)" "8 \<le> Time ?r" "Time ?r \<le> 20"
    by simp_all
  show ?thesis
    using text_probability_raises_TypeError [OF h] by simp
qed

theorem error_names_no_row_counterexample:
  "aggregate (read_csv
      [\<lparr>Time = 8, State = ''Light'', Probability = Str ''abc''\<rparr>,
       \<lparr>Time = 9, State = ''Light'', Probability = Num (4/10)\<rparr>])
     = Inl (TypeError ''agg function failed [how->mean,dtype->object]'') \<and>
   aggregate (read_csv
      [\<lparr>Time = 8, State = ''Light'', Probability = Num (2/10)\<rparr>,
       \<lparr>Time = 9, State = ''Light'', Probability = Str ''abc''\<rparr>])
     = Inl (TypeError ''agg function failed [how->mean,dtype->object]'')"
  by (simp add: aggregate_def avg_prob_early_def early_period_def select_def read_csv_def
      avg_prob_def groupby_State_Probability_def mean_def)

text \<open>
  Without a field to average between 8 and 20 nothing is raised: with no row selected
  there is no group, whatever the column holds.
\<close>

lemma text_outside_periods_not_averaged:
  "aggregate (read_csv [\<lparr>Time = 5, State = ''Light'', Probability = Str ''abc''\<rparr>])
     = Inr ([], [], [])"
  by (simp add: aggregate_def avg_prob_early_def avg_prob_rush_hour_def avg_prob_late_def
      early_period_def rush_hour_period_def late_period_def select_def read_csv_def
      avg_prob_def groupby_State_Probability_def fillna_def)

end
